theory Spec2Isabelle
  imports Complex_Main "HOL-Library.Sublist" "HOL-Library.AList"
begin

section \<open>Text: characters, case mapping, substring tests\<close>

text \<open>
  The parser of \<^verbatim>\<open>src/app/parser.py\<close> works on Python strings. The model uses
  \<^typ>\<open>string\<close> and follows Python on the ASCII range: the white space of
  \<^verbatim>\<open>str.strip\<close> and of the pattern class \<^verbatim>\<open>\s\<close> (tab, line feed, vertical tab,
  form feed, carriage return, the four separators 28 to 31, and the blank), the digits of
  \<^verbatim>\<open>\d\<close>, the word characters of \<^verbatim>\<open>\w\<close>, and the case mappings of
  \<^verbatim>\<open>lower\<close>, \<^verbatim>\<open>upper\<close> and \<^verbatim>\<open>title\<close>. A character outside ASCII is none of
  these and is left alone by the case mappings.
\<close>

definition lowers :: string where
  "lowers = ''abcdefghijklmnopqrstuvwxyz''"

definition uppers :: string where
  "uppers = ''ABCDEFGHIJKLMNOPQRSTUVWXYZ''"

definition digits :: string where
  "digits = ''0123456789''"

definition newline :: char where
  "newline = char_of (10::nat)"

definition spaces :: string where
  "spaces = map char_of [9, 10, 11, 12, 13, 28, 29, 30, 31, 32 :: nat]"

definition is_space :: "char \<Rightarrow> bool" where
  "is_space c = (c \<in> set spaces)"

definition is_digit :: "char \<Rightarrow> bool" where
  "is_digit c = (c \<in> set digits)"

definition is_alpha :: "char \<Rightarrow> bool" where
  "is_alpha c = (c \<in> set lowers \<or> c \<in> set uppers)"

definition is_word :: "char \<Rightarrow> bool" where
  "is_word c = (is_alpha c \<or> is_digit c \<or> c = CHR ''_'')"

definition lower_char :: "char \<Rightarrow> char" where
  "lower_char c = (case map_of (zip uppers lowers) c of Some d \<Rightarrow> d | None \<Rightarrow> c)"

definition upper_char :: "char \<Rightarrow> char" where
  "upper_char c = (case map_of (zip lowers uppers) c of Some d \<Rightarrow> d | None \<Rightarrow> c)"

definition str_lower :: "string \<Rightarrow> string" where
  "str_lower s = map lower_char s"

definition str_upper :: "string \<Rightarrow> string" where
  "str_upper s = map upper_char s"

text \<open>
  \<^verbatim>\<open>str.title\<close>: a letter that follows a letter is lower-cased, any other letter is
  upper-cased, and everything else is kept. The flag says whether the previous character
  was a letter.
\<close>

fun title_from :: "bool \<Rightarrow> string \<Rightarrow> string" where
  "title_from prev [] = []"
| "title_from prev (c # cs) =
     (if is_alpha c then (if prev then lower_char c else upper_char c) # title_from True cs
      else c # title_from False cs)"

definition str_title :: "string \<Rightarrow> string" where
  "str_title s = title_from False s"

definition str_strip :: "string \<Rightarrow> string" where
  "str_strip s = rev (dropWhile is_space (rev (dropWhile is_space s)))"

text \<open>\<^verbatim>\<open>sub in s\<close> on strings: \<open>sub\<close> occurs in \<open>s\<close> as a contiguous run.\<close>

fun contains :: "string \<Rightarrow> string \<Rightarrow> bool" where
  "contains [] sub = (sub = [])"
| "contains (c # cs) sub = (prefix sub (c # cs) \<or> contains cs sub)"

text \<open>\<^verbatim>\<open>any(w in s for w in ws)\<close>.\<close>

definition any_in :: "string list \<Rightarrow> string \<Rightarrow> bool" where
  "any_in ws s = list_ex (contains s) ws"


section \<open>Regular expressions as the parser uses them\<close>

text \<open>
  The patterns of the parser use literals, the classes \<^verbatim>\<open>\d\<close>, \<^verbatim>\<open>\w\<close>,
  \<^verbatim>\<open>\s\<close>, the dot and one bracket class, greedy \<^verbatim>\<open>+\<close> and \<^verbatim>\<open>*\<close> on a
  single character class, the greedy option \<^verbatim>\<open>?\<close>, alternation, capturing groups and
  the anchors \<^verbatim>\<open>^\<close> and \<^verbatim>\<open>$\<close>. The matcher is the backtracking matcher of
  Python's \<^verbatim>\<open>re\<close>: alternatives are tried from left to right, a greedy repetition
  takes the longest run first and gives characters back one at a time, and the first
  way that lets the rest of the pattern match is the match.
\<close>

datatype cls = Digit | WordCh | Space | AnyCh | Ch char

fun in_cls :: "cls \<Rightarrow> char \<Rightarrow> bool" where
  "in_cls Digit c = is_digit c"
| "in_cls WordCh c = is_word c"
| "in_cls Space c = is_space c"
| "in_cls AnyCh c = (c \<noteq> newline)"
| "in_cls (Ch d) c = (c = d)"

text \<open>A bracket class is the list of its members; a single class is a one-element list.\<close>

definition in_set :: "cls list \<Rightarrow> char \<Rightarrow> bool" where
  "in_set cs c = list_ex (\<lambda>k. in_cls k c) cs"

datatype regex =
    Lit string
  | Plus "cls list"
  | Star "cls list"
  | Opt regex
  | Seq regex regex
  | Alt regex regex
  | Group nat regex
  | Bol
  | Eol

text \<open>Captured groups, newest first; a group that took no part has no entry.\<close>

type_synonym caps = "(nat \<times> string) list"

text \<open>
  \<open>backoff k lo i\<close> offers the continuation \<open>k\<close> the lengths \<open>i\<close>, \<open>i - 1\<close>, \dots,
  \<open>lo\<close> in that order and returns the first success: the backtracking of a greedy
  repetition whose longest run has length \<open>i\<close>.
\<close>

fun backoff :: "(nat \<Rightarrow> 'a option) \<Rightarrow> nat \<Rightarrow> nat \<Rightarrow> 'a option" where
  "backoff k lo 0 = (if lo = 0 then k 0 else None)"
| "backoff k lo (Suc i) =
     (if Suc i < lo then None
      else case k (Suc i) of Some r \<Rightarrow> Some r | None \<Rightarrow> backoff k lo i)"

definition run :: "cls list \<Rightarrow> string \<Rightarrow> nat" where
  "run cs s = length (takeWhile (in_set cs) s)"

text \<open>
  \<open>rmatch n r s c k\<close> matches \<open>r\<close> at the front of \<open>s\<close>, the rest of a subject of
  length \<open>n\<close>, with the groups \<open>c\<close> captured so far, and hands the remaining text and
  the groups to \<open>k\<close>, the rest of the pattern. \<^verbatim>\<open>^\<close> holds at the start of the
  subject only, \<^verbatim>\<open>$\<close> at its end or before a final line feed (no flags are used).
\<close>

primrec rmatch ::
  "nat \<Rightarrow> regex \<Rightarrow> string \<Rightarrow> caps \<Rightarrow> (string \<Rightarrow> caps \<Rightarrow> (string \<times> caps) option)
     \<Rightarrow> (string \<times> caps) option" where
  "rmatch n (Lit l) = (\<lambda>s c k. if prefix l s then k (drop (length l) s) c else None)"
| "rmatch n (Plus cs) = (\<lambda>s c k. backoff (\<lambda>i. k (drop i s) c) 1 (run cs s))"
| "rmatch n (Star cs) = (\<lambda>s c k. backoff (\<lambda>i. k (drop i s) c) 0 (run cs s))"
| "rmatch n (Opt r) =
     (\<lambda>s c k. case rmatch n r s c k of Some m \<Rightarrow> Some m | None \<Rightarrow> k s c)"
| "rmatch n (Seq r1 r2) = (\<lambda>s c k. rmatch n r1 s c (\<lambda>s' c'. rmatch n r2 s' c' k))"
| "rmatch n (Alt r1 r2) =
     (\<lambda>s c k. case rmatch n r1 s c k of Some m \<Rightarrow> Some m | None \<Rightarrow> rmatch n r2 s c k)"
| "rmatch n (Group g r) =
     (\<lambda>s c k. rmatch n r s c (\<lambda>s' c'. k s' ((g, take (length s - length s') s) # c')))"
| "rmatch n Bol = (\<lambda>s c k. if length s = n then k s c else None)"
| "rmatch n Eol = (\<lambda>s c k. if s = [] \<or> s = [newline] then k s c else None)"

text \<open>
  A match object: \<open>whole\<close> is \<^verbatim>\<open>group(0)\<close>, and \<open>group m g\<close> is
  \<^verbatim>\<open>group(g)\<close>, \<open>None\<close> for a group that took no part.
\<close>

record rematch =
  whole :: string
  groups :: caps

definition group :: "rematch \<Rightarrow> nat \<Rightarrow> string option" where
  "group m g = map_of (groups m) g"

text \<open>\<^verbatim>\<open>re.search\<close>: the first start position, from the left, at which the pattern matches.\<close>

fun scan :: "nat \<Rightarrow> regex \<Rightarrow> string \<Rightarrow> rematch option" where
  "scan n r s =
     (case rmatch n r s [] (\<lambda>s' c. Some (s', c)) of
        Some (s', c) \<Rightarrow> Some \<lparr>whole = take (length s - length s') s, groups = c\<rparr>
      | None \<Rightarrow> (case s of [] \<Rightarrow> None | _ # t \<Rightarrow> scan n r t))"

definition re_search :: "regex \<Rightarrow> string \<Rightarrow> rematch option" where
  "re_search r s = scan (length s) r s"

text \<open>Shorthands for writing patterns: a sequence, and an alternation of literals.\<close>

fun cat :: "regex list \<Rightarrow> regex" where
  "cat [] = Lit []"
| "cat [r] = r"
| "cat (r # rs) = Seq r (cat rs)"

fun lits :: "string list \<Rightarrow> regex" where
  "lits [] = Lit []"
| "lits [w] = Lit w"
| "lits (w # ws) = Alt (Lit w) (lits ws)"

section \<open>Values, dates, errors\<close>

text \<open>
  \<^verbatim>\<open>date.today()\<close> is read from the clock; the model takes today's date as the
  argument \<open>today\<close> of every function that reads it.
\<close>

record date =
  year :: nat
  month :: nat
  day :: nat

datatype error = ValueError | TypeError | AttributeError | KeyError | OverflowError

text \<open>
  A Python value as it occurs in the parameter dictionaries and in execution results.
  A dictionary is an association list in insertion order. A float is modelled by the
  rational number its decimal text denotes, not by the nearest binary double.
\<close>

datatype pyval =
    PNone
  | PStr string
  | PInt int
  | PFloat rat
  | PDate date
  | PDict "(string \<times> pyval) list"
  | PList "pyval list"

type_synonym pydict = "(string \<times> pyval) list"

text \<open>Sequencing of computations that may raise.\<close>

definition attempt :: "error + 'a \<Rightarrow> ('a \<Rightarrow> error + 'b) \<Rightarrow> error + 'b" where
  "attempt x f = (case x of Inl e \<Rightarrow> Inl e | Inr v \<Rightarrow> f v)"

text \<open>Truth value of a Python object, as \<^verbatim>\<open>if x\<close>, \<^verbatim>\<open>x and y\<close>, \<^verbatim>\<open>x or y\<close> test it.\<close>

fun truthy :: "pyval \<Rightarrow> bool" where
  "truthy PNone = False"
| "truthy (PStr s) = (s \<noteq> [])"
| "truthy (PInt i) = (i \<noteq> 0)"
| "truthy (PFloat f) = (f \<noteq> 0)"
| "truthy (PDate d) = True"
| "truthy (PDict d) = (d \<noteq> [])"
| "truthy (PList l) = (l \<noteq> [])"

text \<open>\<^verbatim>\<open>d.get(k, default)\<close>.\<close>

definition dict_get :: "pydict \<Rightarrow> string \<Rightarrow> pyval \<Rightarrow> pyval" where
  "dict_get d k dflt = (case map_of d k of Some v \<Rightarrow> v | None \<Rightarrow> dflt)"

text \<open>A group as a value: \<^verbatim>\<open>m.group(g)\<close> is a string, or \<^verbatim>\<open>None\<close>.\<close>

definition group_val :: "rematch \<Rightarrow> nat \<Rightarrow> pyval" where
  "group_val m g = (case group m g of Some s \<Rightarrow> PStr s | None \<Rightarrow> PNone)"

text \<open>
  A string method called on \<^verbatim>\<open>m.group(g)\<close> raises \<^verbatim>\<open>AttributeError\<close> when the
  group is \<^verbatim>\<open>None\<close>.
\<close>

definition group_str :: "rematch \<Rightarrow> nat \<Rightarrow> error + string" where
  "group_str m g = (case group m g of Some s \<Rightarrow> Inr s | None \<Rightarrow> Inl AttributeError)"

text \<open>Decimal digits to a number, most significant digit first.\<close>

definition digit_val :: "char \<Rightarrow> int" where
  "digit_val c =
     (case map_of (zip digits [0, 1, 2, 3, 4, 5, 6, 7, 8, 9]) c of
        Some n \<Rightarrow> n
      | None \<Rightarrow> 0)"

definition dec :: "string \<Rightarrow> int" where
  "dec s = foldl (\<lambda>a c. 10 * a + digit_val c) 0 s"

text \<open>
  \<^verbatim>\<open>int(s)\<close> and \<^verbatim>\<open>float(s)\<close> on the texts the patterns can capture: digits, and
  digits with dots. \<^verbatim>\<open>int\<close> wants one digit at least. \<^verbatim>\<open>float\<close> wants digits with
  at most one dot and a digit on one side of it at least, and raises \<^verbatim>\<open>ValueError\<close>
  otherwise (\<^verbatim>\<open>float(".")\<close>, \<^verbatim>\<open>float("1.2.3")\<close>). The interpreter's limit on the
  number of digits \<^verbatim>\<open>int\<close> converts is not modelled.
\<close>

definition py_int :: "string \<Rightarrow> error + int" where
  "py_int s = (if s \<noteq> [] \<and> list_all is_digit s then Inr (dec s) else Inl ValueError)"

definition py_float :: "string \<Rightarrow> error + rat" where
  "py_float s =
     (let ip = takeWhile is_digit s; r = dropWhile is_digit s in
      if r = [] then (if ip = [] then Inl ValueError else Inr (of_int (dec ip)))
      else if hd r = CHR ''.'' \<and> list_all is_digit (tl r) \<and> \<not> (ip = [] \<and> tl r = [])
      then Inr (of_int (dec ip) + of_int (dec (tl r)) / 10 ^ length (tl r))
      else Inl ValueError)"

text \<open>\<^verbatim>\<open>float(x)\<close> on a value: \<^verbatim>\<open>float(None)\<close> raises \<^verbatim>\<open>TypeError\<close>.\<close>

fun py_float_val :: "pyval \<Rightarrow> error + rat" where
  "py_float_val (PStr s) = py_float s"
| "py_float_val (PInt i) = Inr (of_int i)"
| "py_float_val (PFloat f) = Inr f"
| "py_float_val v = Inl TypeError"

text \<open>\<^verbatim>\<open>x or y\<close>.\<close>

definition py_or :: "pyval \<Rightarrow> pyval \<Rightarrow> pyval" where
  "py_or x y = (if truthy x then x else y)"

text \<open>\<^verbatim>\<open>strftime('%m%d')\<close>: month and day, two digits each.\<close>

definition two_digits :: "nat \<Rightarrow> string" where
  "two_digits n = [digits ! (n div 10 mod 10), digits ! (n mod 10)]"

definition mmdd :: "date \<Rightarrow> string" where
  "mmdd d = two_digits (month d) @ two_digits (day d)"

text \<open>
  \<^verbatim>\<open>d - timedelta(days=1)\<close>: the day before, in the proleptic Gregorian calendar;
  \<^verbatim>\<open>OverflowError\<close> before the first day of year 1.
\<close>

definition leap :: "nat \<Rightarrow> bool" where
  "leap y = (if y mod 100 = 0 then y mod 400 = 0 else y mod 4 = 0)"

definition days_in_month :: "nat \<Rightarrow> nat \<Rightarrow> nat" where
  "days_in_month y m =
     (if m = 2 then (if leap y then 29 else 28)
      else if m \<in> {4, 6, 9, 11} then 30 else 31)"

definition day_before :: "date \<Rightarrow> error + date" where
  "day_before d =
     (if 1 < day d then Inr (d\<lparr>day := day d - 1\<rparr>)
      else if 1 < month d
      then Inr (d\<lparr>month := month d - 1, day := days_in_month (year d) (month d - 1)\<rparr>)
      else if 1 < year d then Inr \<lparr>year = year d - 1, month = 12, day = 31\<rparr>
      else Inl OverflowError)"

section \<open>Commands\<close>

datatype CommandType = ADD_CATTLE | MOVE | HEALTH | SALE | QUERY | STATUS | HELP | UNKNOWN

record ParsedCommand =
  command_type :: CommandType
  params :: pydict
  confidence :: rat
  raw_text :: string

definition CATTLE_TYPES :: "(string \<times> string list) list" where
  "CATTLE_TYPES =
     [(''calf'', [''calf'', ''calve'', ''baby'', ''newborn'']),
      (''cow'', [''cow'', ''mama'', ''momma'', ''mother'', ''dam'']),
      (''bull'', [''bull'', ''sire'', ''daddy'']),
      (''steer'', [''steer'', ''steers'']),
      (''heifer'', [''heifer'', ''heifers'', ''young cow''])]"

definition EVENT_TYPES :: "(string \<times> string list) list" where
  "EVENT_TYPES =
     [(''vet'', [''vet'', ''veterinarian'', ''doctor'', ''checkup'', ''check up'', ''check-up'']),
      (''treatment'',
         [''treat'', ''treatment'', ''medicine'', ''medicate'', ''dose'', ''shot'', ''vaccine'']),
      (''birth'', [''born'', ''birth'', ''calved'', ''calving'', ''dropped'']),
      (''death'', [''died'', ''dead'', ''death'', ''passed'', ''lost'']),
      (''note'', [''note'', ''notes'', ''comment'', ''observe'', ''saw''])]"

definition LOCATIONS :: "string list" where
  "LOCATIONS = [''pasture'', ''field'', ''barn'', ''corral'', ''pen'', ''woods'', ''hayfield'']"

definition QUERY_WORDS :: "string list" where
  "QUERY_WORDS =
     [''how many'', ''count'', ''total'', ''list'', ''show'', ''what'', ''where'', ''status'']"

text \<open>
  \<^verbatim>\<open>for pattern in patterns: match = re.search(pattern, s); if match: ...; break\<close>:
  the match of the first pattern that matches.
\<close>

fun first_search :: "regex list \<Rightarrow> string \<Rightarrow> rematch option" where
  "first_search [] s = None"
| "first_search (r # rs) s =
     (case re_search r s of Some m \<Rightarrow> Some m | None \<Rightarrow> first_search rs s)"

section \<open>The parser\<close>

subsection \<open>Adding cattle\<close>

text \<open>
  The four tag patterns of \<^verbatim>\<open>_parse_add\<close>, in the order they are tried:
  \<^verbatim>\<open>(?:tag\s*#?\s*)(\w+)\<close>, \<^verbatim>\<open>#(\d+)\<close>, \<^verbatim>\<open>(\w+)\s+tag\<close>,
  \<^verbatim>\<open>(?:number|num|no\.?)\s*(\d+)\<close>.
\<close>

definition tag_patterns :: "regex list" where
  "tag_patterns =
     [cat [Lit ''tag'', Star [Space], Opt (Lit ''#''), Star [Space], Group 1 (Plus [WordCh])],
      cat [Lit ''#'', Group 1 (Plus [Digit])],
      cat [Group 1 (Plus [WordCh]), Plus [Space], Lit ''tag''],
      cat [Alt (Lit ''number'') (Alt (Lit ''num'') (Seq (Lit ''no'') (Opt (Lit ''.'')))),
           Star [Space], Group 1 (Plus [Digit])]]"

text \<open>The location phrase: \<^verbatim>\<open>(\w+\s+)?\<close> followed by the location keyword.\<close>

definition loc_phrase :: "string \<Rightarrow> regex" where
  "loc_phrase loc = Seq (Opt (Group 1 (Seq (Plus [WordCh]) (Plus [Space])))) (Lit loc)"

definition colors :: "string list" where
  "colors = [''red'', ''blue'', ''green'', ''yellow'', ''white'', ''black'', ''orange'']"

text \<open>
  \<^verbatim>\<open>_parse_add\<close> creates the dictionary with its six keys and afterwards assigns to
  these keys only; the model names the six values and builds the dictionary at the end,
  in the order of its creation.
\<close>

definition parse_add :: "date \<Rightarrow> string \<Rightarrow> string \<Rightarrow> error + ParsedCommand" where
  "parse_add today text lower =
     (let ctype = (case find (\<lambda>(ctype, keywords). any_in keywords lower) CATTLE_TYPES of
                     Some (ctype, keywords) \<Rightarrow> ctype
                   | None \<Rightarrow> ''calf'')
      in
      attempt (case first_search tag_patterns lower of
                 Some m \<Rightarrow> attempt (group_str m 1) (\<lambda>g. Inr (PStr (str_upper g)))
               | None \<Rightarrow> Inr PNone) (\<lambda>tag.
      let tag = (if \<not> truthy tag then PStr (''NEW-'' @ mmdd today) else tag) in
      attempt (if contains lower ''today'' then Inr (PDate today)
               else if contains lower ''yesterday''
               then attempt (day_before today) (\<lambda>d. Inr (PDate d))
               else Inr PNone) (\<lambda>birth_date.
      let (notes, tag) =
            (case find (contains lower) colors of
               Some color \<Rightarrow>
                 (PStr (if contains lower ''tag'' then color @ '' tag'' else color),
                  if tag = PStr (''NEW-'' @ mmdd today)
                  then PStr (str_upper color @ ''-'' @ mmdd today) else tag)
             | None \<Rightarrow> (PNone, tag));
          location =
            (case find (contains lower) LOCATIONS of
               Some loc \<Rightarrow>
                 (case re_search (loc_phrase loc) lower of
                    Some m \<Rightarrow> PStr (str_title (whole m))
                  | None \<Rightarrow> PNone)
             | None \<Rightarrow> PNone)
      in Inr \<lparr>command_type = ADD_CATTLE,
              params = [(''type'', PStr ctype), (''breed'', PStr ''Angus''),
                        (''birth_date'', birth_date), (''tag'', tag),
                        (''location'', location), (''notes'', notes)],
              confidence = 0.8, raw_text = text\<rparr>)))"

subsection \<open>Moving cattle\<close>

text \<open>The tag pattern of moves and events: \<^verbatim>\<open>(?:cow|bull|calf|steer|heifer|#)\s*(\d+)\<close>.\<close>

definition id_pattern :: regex where
  "id_pattern =
     cat [lits [''cow'', ''bull'', ''calf'', ''steer'', ''heifer'', ''#''],
          Star [Space], Group 1 (Plus [Digit])]"

text \<open>
  The location patterns of \<^verbatim>\<open>_parse_move\<close>:
  \<^verbatim>\<open>(?:to|in|at)\s+(?:the\s+)?(\w+\s+(?:pasture|field|pen|barn|corral))\<close>,
  \<^verbatim>\<open>(?:to|in|at)\s+(?:the\s+)?(\w+)\<close>,
  \<^verbatim>\<open>(north|south|east|west|back|front|main|new)\s+(?:pasture|field)\<close>.
\<close>

definition loc_patterns :: "regex list" where
  "loc_patterns =
     [cat [lits [''to'', ''in'', ''at''], Plus [Space], Opt (Seq (Lit ''the'') (Plus [Space])),
           Group 1 (cat [Plus [WordCh], Plus [Space],
                         lits [''pasture'', ''field'', ''pen'', ''barn'', ''corral'']])],
      cat [lits [''to'', ''in'', ''at''], Plus [Space], Opt (Seq (Lit ''the'') (Plus [Space])),
           Group 1 (Plus [WordCh])],
      cat [Group 1 (lits [''north'', ''south'', ''east'', ''west'', ''back'', ''front'',
                          ''main'', ''new'']),
           Plus [Space], lits [''pasture'', ''field'']]]"

definition parse_move :: "string \<Rightarrow> string \<Rightarrow> error + ParsedCommand" where
  "parse_move text lower =
     (let tag = (case re_search id_pattern lower of
                   Some tag_match \<Rightarrow> group_val tag_match 1
                 | None \<Rightarrow> PNone)
      in
      attempt (case first_search loc_patterns lower of
                 Some m \<Rightarrow> attempt (group_str m 1) (\<lambda>g. Inr (PStr (str_title g)))
               | None \<Rightarrow> Inr PNone) (\<lambda>location.
      let confidence = (if truthy tag \<and> truthy location then 0.9 else 0.6)
      in Inr \<lparr>command_type = MOVE,
              params = [(''tag'', tag), (''location'', location)],
              confidence = confidence, raw_text = text\<rparr>))"

subsection \<open>Health events\<close>

definition conditions :: "string list" where
  "conditions =
     [''pink eye'', ''pinkeye'', ''limp'', ''limping'', ''sick'', ''fever'',
      ''bloat'', ''prolapse'', ''mastitis'', ''foot rot'', ''scours'', ''pneumonia'']"

definition parse_event :: "date \<Rightarrow> string \<Rightarrow> string \<Rightarrow> error + ParsedCommand" where
  "parse_event today text lower =
     (let event_type = (case find (\<lambda>(etype, keywords). any_in keywords lower) EVENT_TYPES of
                          Some (etype, keywords) \<Rightarrow> etype
                        | None \<Rightarrow> ''note'');
          tag = (case re_search id_pattern lower of
                   Some tag_match \<Rightarrow> group_val tag_match 1
                 | None \<Rightarrow> PNone);
          details = (case find (contains lower) conditions of
                       Some condition \<Rightarrow> str_title condition
                     | None \<Rightarrow> text)
      in Inr \<lparr>command_type = HEALTH,
              params = [(''tag'', tag), (''event_type'', PStr event_type),
                        (''details'', PStr details), (''date'', PDate today)],
              confidence = 0.85, raw_text = text\<rparr>)"

subsection \<open>Sales\<close>

text \<open>
  The patterns of \<^verbatim>\<open>_parse_sale\<close>:
  \<^verbatim>\<open>(\d+)\s*(?:head|steers?|heifers?|cows?|bulls?)\<close> and \<^verbatim>\<open>sold\s+(\d+)\<close> for the
  head count, \<^verbatim>\<open>\$?([\d.]+)\s*(?:/|\s*per\s*)?(?:lb|pound)\<close> for the price, and
  \<^verbatim>\<open>(\d+)\s*(?:lb|lbs|pounds?)|avg\s+(\d+)|average\s+(\d+)\<close> for the weight.
\<close>

definition head_pattern :: regex where
  "head_pattern =
     cat [Group 1 (Plus [Digit]), Star [Space],
          Alt (Lit ''head'')
           (Alt (Seq (Lit ''steer'') (Opt (Lit ''s'')))
             (Alt (Seq (Lit ''heifer'') (Opt (Lit ''s'')))
               (Alt (Seq (Lit ''cow'') (Opt (Lit ''s'')))
                    (Seq (Lit ''bull'') (Opt (Lit ''s''))))))]"

definition sold_pattern :: regex where
  "sold_pattern = cat [Lit ''sold'', Plus [Space], Group 1 (Plus [Digit])]"

definition price_pattern :: regex where
  "price_pattern =
     cat [Opt (Lit ''$''), Group 1 (Plus [Digit, Ch CHR ''.'']), Star [Space],
          Opt (Alt (Lit ''/'') (cat [Star [Space], Lit ''per'', Star [Space]])),
          lits [''lb'', ''pound'']]"

definition weight_pattern :: regex where
  "weight_pattern =
     Alt (cat [Group 1 (Plus [Digit]), Star [Space],
               Alt (Lit ''lb'') (Alt (Lit ''lbs'') (Seq (Lit ''pound'') (Opt (Lit ''s''))))])
      (Alt (cat [Lit ''avg'', Plus [Space], Group 2 (Plus [Digit])])
           (cat [Lit ''average'', Plus [Space], Group 3 (Plus [Digit])]))"

text \<open>\<^verbatim>\<open>int(x)\<close> on a group value: \<^verbatim>\<open>int(None)\<close> raises \<^verbatim>\<open>TypeError\<close>.\<close>

fun py_int_val :: "pyval \<Rightarrow> error + int" where
  "py_int_val (PStr s) = py_int s"
| "py_int_val (PInt i) = Inr i"
| "py_int_val v = Inl TypeError"

definition parse_sale :: "date \<Rightarrow> string \<Rightarrow> string \<Rightarrow> error + ParsedCommand" where
  "parse_sale today text lower =
     attempt (case re_search head_pattern lower of
                Some count_match \<Rightarrow> py_int_val (group_val count_match 1)
              | None \<Rightarrow>
                  (case re_search sold_pattern lower of
                     Some count_match \<Rightarrow> py_int_val (group_val count_match 1)
                   | None \<Rightarrow> Inr 1)) (\<lambda>head_count.
     attempt (case re_search price_pattern lower of
                Some price_match \<Rightarrow>
                  attempt (py_float_val (group_val price_match 1)) (\<lambda>f. Inr (PFloat f))
              | None \<Rightarrow> Inr PNone) (\<lambda>price_per_lb.
     attempt (case re_search weight_pattern lower of
                Some weight_match \<Rightarrow>
                  attempt (py_float_val (py_or (py_or (group_val weight_match 1)
                                                      (group_val weight_match 2))
                                               (group_val weight_match 3)))
                    (\<lambda>f. Inr (PFloat f))
              | None \<Rightarrow> Inr PNone) (\<lambda>avg_weight.
     let cattle_type =
           (case find (contains lower) [''steer'', ''heifer'', ''cow'', ''bull'', ''calf''] of
              Some ctype \<Rightarrow> ctype
            | None \<Rightarrow> ''steer'')
     in Inr \<lparr>command_type = SALE,
             params = [(''head_count'', PInt head_count), (''price_per_lb'', price_per_lb),
                       (''avg_weight'', avg_weight), (''cattle_type'', PStr cattle_type),
                       (''buyer'', PNone), (''date'', PDate today)],
             confidence = 0.9, raw_text = text\<rparr>)))"

subsection \<open>Queries\<close>

text \<open>The tag pattern of a location query: \<^verbatim>\<open>(?:cow|bull|calf|is|#)\s*(\d+)\<close>.\<close>

definition query_tag_pattern :: regex where
  "query_tag_pattern =
     cat [lits [''cow'', ''bull'', ''calf'', ''is'', ''#''], Star [Space],
          Group 1 (Plus [Digit])]"

text \<open>
  \<^verbatim>\<open>for ctype in self.CATTLE_TYPES: if ctype in lower: filter["type"] = ctype; break\<close>:
  the loop runs over the keys of the table, not over the synonyms.
\<close>

definition type_filter :: "string \<Rightarrow> pydict \<Rightarrow> pydict" where
  "type_filter lower filt =
     (case find (contains lower) (map fst CATTLE_TYPES) of
        Some ctype \<Rightarrow> AList.update ''type'' (PStr ctype) filt
      | None \<Rightarrow> filt)"

definition parse_query :: "date \<Rightarrow> string \<Rightarrow> string \<Rightarrow> error + ParsedCommand" where
  "parse_query today text lower =
     (let (query_type, filt) =
            (if contains lower ''where'' then
               (''location'',
                case re_search query_tag_pattern lower of
                  Some tag_match \<Rightarrow> AList.update ''tag'' (group_val tag_match 1) []
                | None \<Rightarrow> [])
             else if any_in [''how many'', ''count'', ''total''] lower then
               (''count'',
                let filt = type_filter lower [] in
                if contains lower ''this month'' \<or> contains lower ''month''
                then AList.update ''since'' (PDate (today\<lparr>day := 1\<rparr>)) filt
                else if contains lower ''this year'' \<or> contains lower ''year''
                        \<or> contains lower ''ytd''
                then AList.update ''since''
                       (PDate \<lparr>year = year today, month = 1, day = 1\<rparr>) filt
                else if contains lower ''today''
                then AList.update ''since'' (PDate today) filt
                else filt)
             else if contains lower ''list'' \<or> contains lower ''show'' \<or> contains lower ''all''
             then (''list'', type_filter lower [])
             else (''count'', []))
      in Inr \<lparr>command_type = QUERY,
              params = [(''query_type'', PStr query_type), (''filter'', PDict filt)],
              confidence = 0.85, raw_text = text\<rparr>)"

subsection \<open>Inference from context\<close>

text \<open>The pattern of \<^verbatim>\<open>_infer_command\<close>: \<^verbatim>\<open>^(\d+)\s+(.+)$\<close>, searched in the text as typed.\<close>

definition infer_pattern :: regex where
  "infer_pattern =
     cat [Bol, Group 1 (Plus [Digit]), Plus [Space], Group 2 (Plus [AnyCh]), Eol]"

definition distress_words :: "string list" where
  "distress_words = [''sick'', ''limping'', ''down'', ''problem'']"

definition infer_command :: "string \<Rightarrow> string \<Rightarrow> error + ParsedCommand" where
  "infer_command text lower =
     (let unknown = Inr \<lparr>command_type = UNKNOWN, params = [(''raw'', PStr text)],
                         confidence = 0.0, raw_text = text\<rparr>
      in case re_search infer_pattern text of
           Some tag_match \<Rightarrow>
             (let tag = group_val tag_match 1 in
              attempt (group_str tag_match 2) (\<lambda>g.
              let rest = str_lower g in
              if any_in distress_words rest
              then Inr \<lparr>command_type = HEALTH,
                        params = [(''tag'', tag), (''event_type'', PStr ''note''),
                                  (''details'', PStr rest)],
                        confidence = 0.7, raw_text = text\<rparr>
              else unknown))
         | None \<Rightarrow> unknown)"

subsection \<open>The cascade\<close>

text \<open>
  \<^verbatim>\<open>any(any(w in lower for w in words) for words in self.EVENT_TYPES.values())\<close>:
  the text has a synonym of some event type.
\<close>

text \<open>The literal lists of the checks of \<^verbatim>\<open>parse\<close>, in the order of the checks.\<close>

definition help_texts :: "string list" where
  "help_texts = [''help'', ''?'', ''commands'', ''what can you do'']"

definition status_texts :: "string list" where
  "status_texts = [''status'', ''overview'', ''summary'', ''stats'']"

definition sale_words :: "string list" where
  "sale_words = [''sold'', ''sale'', ''sell'']"

definition move_words :: "string list" where
  "move_words = [''moved'', ''move'', ''moving'', ''went'', ''put'', ''in the'', ''to the'']"

definition add_words :: "string list" where
  "add_words = [''add'', ''new'', ''born'', ''bought'', ''got'']"

definition has_event_word :: "string \<Rightarrow> bool" where
  "has_event_word lower = list_ex (\<lambda>words. any_in words lower) (map snd EVENT_TYPES)"

definition parse :: "date \<Rightarrow> string \<Rightarrow> error + ParsedCommand" where
  "parse today input =
     (let text = str_strip input; lower = str_lower text in
      if lower \<in> set help_texts
      then Inr \<lparr>command_type = HELP, params = [], confidence = 1.0, raw_text = text\<rparr>
      else if lower \<in> set status_texts
      then Inr \<lparr>command_type = STATUS, params = [], confidence = 1.0, raw_text = text\<rparr>
      else if any_in QUERY_WORDS lower then parse_query today text lower
      else if any_in sale_words lower then parse_sale today text lower
      else if has_event_word lower then parse_event today text lower
      else if any_in move_words lower then parse_move text lower
      else if any_in add_words lower then parse_add today text lower
      else infer_command text lower)"

section \<open>The response\<close>

text \<open>
  The replies contain three characters outside ASCII; the model writes them as their
  UTF-8 bytes: the check mark U+2713, the bullet U+2022 and the cow U+1F404.
\<close>

definition check_mark :: string where
  "check_mark = map char_of [226, 156, 147 :: nat]"

definition bullet :: string where
  "bullet = map char_of [226, 128, 162 :: nat]"

definition cow_sign :: string where
  "cow_sign = map char_of [240, 159, 144, 132 :: nat]"

definition help_text :: string where
  "help_text =
     ''FarmOps Commands:'' @ [newline]
     @ bullet @ '' Add calf born today red tag'' @ [newline]
     @ bullet @ '' Cow 42 moved to north pasture  '' @ [newline]
     @ bullet @ '' How many calves this month'' @ [newline]
     @ bullet @ '' Vet visit cow 15 pink eye'' @ [newline]
     @ bullet @ '' Sold 5 steers $1.85/lb avg 1100'' @ [newline]
     @ bullet @ '' Status (for overview)'' @ [newline]
     @ bullet @ '' Help (this message)''"

text \<open>
  The format \<^verbatim>\<open>{x:,.0f}\<close>: the number rounded to an integer, halves to the even
  neighbour, with a comma between groups of three digits. \<open>dec_text\<close> writes an integer
  that is not negative in decimal.
\<close>

function dec_text :: "int \<Rightarrow> string" where
  "dec_text n =
     (if n < 10 then [digits ! nat n]
      else dec_text (n div 10) @ [digits ! nat (n mod 10)])"
  by pat_completeness auto
termination
  by (relation "measure nat") auto

fun group3 :: "string \<Rightarrow> string" where
  "group3 (a # b # c # d # rest) = a # b # c # CHR '','' # group3 (d # rest)"
| "group3 s = s"

definition commas :: "string \<Rightarrow> string" where
  "commas s = rev (group3 (rev s))"

definition round_half_even :: "rat \<Rightarrow> int" where
  "round_half_even r =
     (let f = \<lfloor>r\<rfloor>; d = r - of_int f in
      if d < 1 / 2 then f else if 1 / 2 < d then f + 1 else if even f then f else f + 1)"

definition format_comma_0f :: "rat \<Rightarrow> string" where
  "format_comma_0f r =
     (if r < 0 then ''-'' @ commas (dec_text (round_half_even (- r)))
      else commas (dec_text (round_half_even r)))"

text \<open>
  The format applied to a value: a number is formatted, \<^verbatim>\<open>None\<close> and containers
  raise \<^verbatim>\<open>TypeError\<close>, a string raises \<^verbatim>\<open>ValueError\<close>.
\<close>

fun format_0f :: "pyval \<Rightarrow> error + string" where
  "format_0f (PInt i) = Inr (format_comma_0f (of_int i))"
| "format_0f (PFloat f) = Inr (format_comma_0f f)"
| "format_0f (PStr s) = Inl ValueError"
| "format_0f v = Inl TypeError"

text \<open>
  \<^verbatim>\<open>x * y\<close>: the product of two numbers; a string or a list times an integer is
  repeated; anything else raises \<^verbatim>\<open>TypeError\<close>.
\<close>

fun py_mul :: "pyval \<Rightarrow> pyval \<Rightarrow> error + pyval" where
  "py_mul (PInt a) (PInt b) = Inr (PInt (a * b))"
| "py_mul (PInt a) (PFloat b) = Inr (PFloat (of_int a * b))"
| "py_mul (PFloat a) (PInt b) = Inr (PFloat (a * of_int b))"
| "py_mul (PFloat a) (PFloat b) = Inr (PFloat (a * b))"
| "py_mul (PStr s) (PInt n) = Inr (PStr (concat (replicate (nat n) s)))"
| "py_mul (PInt n) (PStr s) = Inr (PStr (concat (replicate (nat n) s)))"
| "py_mul (PList l) (PInt n) = Inr (PList (concat (replicate (nat n) l)))"
| "py_mul (PInt n) (PList l) = Inr (PList (concat (replicate (nat n) l)))"
| "py_mul x y = Inl TypeError"

text \<open>\<^verbatim>\<open>len(x)\<close>.\<close>

fun py_len :: "pyval \<Rightarrow> error + nat" where
  "py_len (PStr s) = Inr (length s)"
| "py_len (PDict d) = Inr (length d)"
| "py_len (PList l) = Inr (length l)"
| "py_len v = Inl TypeError"

text \<open>\<^verbatim>\<open>x.get(k, default)\<close> on a value: \<^verbatim>\<open>AttributeError\<close> unless \<open>x\<close> is a dictionary.\<close>

fun val_get :: "pyval \<Rightarrow> string \<Rightarrow> pyval \<Rightarrow> error + pyval" where
  "val_get (PDict d) k dflt = Inr (dict_get d k dflt)"
| "val_get v k dflt = Inl AttributeError"

text \<open>
  \<^verbatim>\<open>generate_response(command, result)\<close>. An f-string field without a format writes
  \<^verbatim>\<open>str(x)\<close>; Python's \<^verbatim>\<open>str\<close> on values is the argument \<open>str_of\<close>. The model
  keeps the order of the tests on the command type, and the fall through of a query whose
  type is none of the three to the last \<^verbatim>\<open>return\<close>.
\<close>

definition generate_response ::
  "(pyval \<Rightarrow> string) \<Rightarrow> ParsedCommand \<Rightarrow> pydict \<Rightarrow> error + string" where
  "generate_response str_of command result =
     (let fallback = Inr ''Command received. Check dashboard for details.'' in
      if command_type command = HELP then Inr help_text
      else if command_type command = STATUS then
        (let stats = result in
         attempt (format_0f (dict_get stats ''sales_ytd_amount'' (PInt 0))) (\<lambda>amount.
         Inr (cow_sign @ '' Farm Status:'' @ [newline]
              @ ''Total: '' @ str_of (dict_get stats ''total_head'' (PInt 0)) @ '' head''
              @ [newline]
              @ ''Calves YTD: '' @ str_of (dict_get stats ''calves_ytd'' (PInt 0)) @ [newline]
              @ ''Sales YTD: '' @ str_of (dict_get stats ''sales_ytd_head'' (PInt 0))
              @ '' head ($'' @ amount @ '')'')))
      else if command_type command = ADD_CATTLE then
        Inr (check_mark @ '' Added '' @ str_of (dict_get (params command) ''type'' (PStr ''cattle''))
             @ '' - tag '' @ str_of (dict_get result ''tag'' (PStr ''N/A'')))
      else if command_type command = MOVE then
        Inr (check_mark @ '' Moved #'' @ str_of (dict_get (params command) ''tag'' PNone)
             @ '' to '' @ str_of (dict_get (params command) ''location'' PNone))
      else if command_type command = HEALTH then
        Inr (check_mark @ '' Logged '' @ str_of (dict_get (params command) ''event_type'' PNone)
             @ '' for #'' @ str_of (dict_get (params command) ''tag'' PNone)
             @ '': '' @ str_of (dict_get (params command) ''details'' PNone))
      else if command_type command = SALE then
        (let p = params command in
         attempt (py_mul (py_or (dict_get p ''price_per_lb'' (PInt 0)) (PInt 0))
                         (py_or (dict_get p ''avg_weight'' (PInt 0)) (PInt 0))) (\<lambda>pw.
         attempt (py_mul pw (dict_get p ''head_count'' (PInt 1))) (\<lambda>amt.
         attempt (format_0f amt) (\<lambda>amount.
         Inr (check_mark @ '' Recorded sale: '' @ str_of (dict_get p ''head_count'' PNone)
              @ '' '' @ str_of (dict_get p ''cattle_type'' PNone) @ ''(s) - $'' @ amount)))))
      else if command_type command = QUERY then
        (if dict_get (params command) ''query_type'' PNone = PStr ''count'' then
           attempt (val_get (dict_get (params command) ''filter'' (PDict [])) ''type''
                      (PStr ''cattle'')) (\<lambda>filter_desc.
           Inr (''Count: '' @ str_of (dict_get result ''count'' (PInt 0)) @ '' ''
                @ str_of filter_desc))
         else if dict_get (params command) ''query_type'' PNone = PStr ''location'' then
           (case map_of (params command) ''filter'' of
              None \<Rightarrow> Inl KeyError
            | Some f \<Rightarrow>
                attempt (val_get f ''tag'' PNone) (\<lambda>tag.
                Inr (''#'' @ str_of tag @ '' is at ''
                     @ str_of (dict_get result ''location'' (PStr ''unknown'')))))
         else if dict_get (params command) ''query_type'' PNone = PStr ''list'' then
           attempt (py_len (dict_get result ''cattle'' (PList []))) (\<lambda>count.
           Inr (''Found '' @ str_of (PInt (int count))
                @ '' cattle. Check dashboard for full list.''))
         else fallback)
      else fallback)"

section \<open>Static measures of a pattern\<close>

text \<open>
  \<open>minlen r\<close> is a lower bound on the length of a match of \<open>r\<close>; \<open>grps r\<close> are the
  groups that occur in \<open>r\<close>; \<open>sure g r\<close> holds when every match of \<open>r\<close> captures a
  text that is not empty in group \<open>g\<close>, by the shape of the pattern alone.
\<close>

primrec minlen :: "regex \<Rightarrow> nat" where
  "minlen (Lit l) = length l"
| "minlen (Plus cs) = 1"
| "minlen (Star cs) = 0"
| "minlen (Opt r) = 0"
| "minlen (Seq r1 r2) = minlen r1 + minlen r2"
| "minlen (Alt r1 r2) = min (minlen r1) (minlen r2)"
| "minlen (Group g r) = minlen r"
| "minlen Bol = 0"
| "minlen Eol = 0"

primrec grps :: "regex \<Rightarrow> nat set" where
  "grps (Lit l) = {}"
| "grps (Plus cs) = {}"
| "grps (Star cs) = {}"
| "grps (Opt r) = grps r"
| "grps (Seq r1 r2) = grps r1 \<union> grps r2"
| "grps (Alt r1 r2) = grps r1 \<union> grps r2"
| "grps (Group g r) = insert g (grps r)"
| "grps Bol = {}"
| "grps Eol = {}"

primrec sure :: "nat \<Rightarrow> regex \<Rightarrow> bool" where
  "sure g (Lit l) = False"
| "sure g (Plus cs) = False"
| "sure g (Star cs) = False"
| "sure g (Opt r) = False"
| "sure g (Seq r1 r2) = (sure g r2 \<or> (sure g r1 \<and> g \<notin> grps r2))"
| "sure g (Alt r1 r2) = (sure g r1 \<and> sure g r2)"
| "sure g (Group h r) = (if h = g then 0 < minlen r else sure g r)"
| "sure g Bol = False"
| "sure g Eol = False"

text \<open>A day for the examples.\<close>

definition example_day :: date where
  "example_day = \<lparr>year = 2026, month = 11, day = 3\<rparr>"

section \<open>Facts about the extractors\<close>

text \<open>
  What each extractor returns when it returns: its intent, its confidence and the raw text
  it was given.
\<close>

lemma attempt_Inr: "attempt x f = Inr y \<longleftrightarrow> (\<exists>v. x = Inr v \<and> f v = Inr y)"
  by (cases x) (simp_all add: attempt_def)

lemma parse_query_Inr:
  assumes "parse_query today text lower = Inr cmd"
  shows "command_type cmd = QUERY \<and> confidence cmd = 0.85 \<and> raw_text cmd = text"
proof -
  obtain qt f where "parse_query today text lower =
      Inr \<lparr>command_type = QUERY, params = [(''query_type'', PStr qt), (''filter'', PDict f)],
           confidence = 0.85, raw_text = text\<rparr>"
    unfolding parse_query_def Let_def by (simp add: case_prod_beta)
  with assms show ?thesis by auto
qed

lemma parse_sale_Inr:
  assumes "parse_sale today text lower = Inr cmd"
  shows "command_type cmd = SALE \<and> confidence cmd = 0.9 \<and> raw_text cmd = text"
  using assms unfolding parse_sale_def Let_def attempt_Inr by auto

lemma parse_event_Inr:
  assumes "parse_event today text lower = Inr cmd"
  shows "command_type cmd = HEALTH \<and> confidence cmd = 0.85 \<and> raw_text cmd = text"
  using assms unfolding parse_event_def Let_def by auto

lemma parse_add_Inr:
  assumes "parse_add today text lower = Inr cmd"
  shows "command_type cmd = ADD_CATTLE \<and> confidence cmd = 0.8 \<and> raw_text cmd = text"
  using assms unfolding parse_add_def Let_def attempt_Inr by (auto simp: case_prod_beta)

lemma parse_move_Inr:
  assumes "parse_move text lower = Inr cmd"
  shows "command_type cmd = MOVE \<and> (confidence cmd = 0.9 \<or> confidence cmd = 0.6)
         \<and> raw_text cmd = text"
  using assms unfolding parse_move_def Let_def attempt_Inr by (auto split: if_splits)

lemma infer_command_Inr:
  assumes "infer_command text lower = Inr cmd"
  shows "(command_type cmd = HEALTH \<and> confidence cmd = 0.7
          \<or> command_type cmd = UNKNOWN \<and> confidence cmd = 0) \<and> raw_text cmd = text"
  using assms unfolding infer_command_def Let_def
  by (auto simp: attempt_Inr split: option.splits if_splits)







lemma infer_no_date:
  "infer_command text lower = Inr cmd \<Longrightarrow> map_of (params cmd) ''date'' = None"
  unfolding infer_command_def Let_def
  by (auto simp: attempt_Inr split: option.splits if_splits)

section \<open>Facts about the matcher\<close>

text \<open>
  A match is found by the continuation: what \<open>rmatch\<close> returns is what the rest of the
  pattern returned on a shorter text, with the groups outside the pattern unchanged.
\<close>

lemma backoff_Some:
  "backoff k lo i = Some r \<Longrightarrow> \<exists>j. lo \<le> j \<and> j \<le> i \<and> k j = Some r"
proof (induction i)
  case 0
  then show ?case by (auto split: if_splits)
next
  case (Suc i)
  show ?case
  proof (cases "k (Suc i)")
    case None
    with Suc.prems have "backoff k lo i = Some r" by (auto split: if_splits)
    from Suc.IH [OF this] show ?thesis by (meson le_SucI)
  next
    case (Some a)
    with Suc.prems have "lo \<le> Suc i" "k (Suc i) = Some r" by (auto split: if_splits)
    then show ?thesis by blast
  qed
qed

lemma run_le: "run cs s \<le> length s"
  by (simp add: run_def length_takeWhile_le)

lemma rmatch_shrinks:
  "rmatch n r s c k = Some res \<Longrightarrow>
   \<exists>s' c'. k s' c' = Some res \<and> length s' + minlen r \<le> length s"
proof (induction r arbitrary: s c k res)
  case (Lit l)
  then have p: "prefix l s" and k: "k (drop (length l) s) c = Some res"
    by (auto split: if_splits)
  from p have "length l \<le> length s" by (rule prefix_length_le)
  with k show ?case by (intro exI [of _ "drop (length l) s"] exI [of _ c]) simp
next
  case (Plus cs)
  then obtain j where j: "1 \<le> j" "j \<le> run cs s" "k (drop j s) c = Some res"
    by (auto dest!: backoff_Some)
  with run_le [of cs s] show ?case
    by (intro exI [of _ "drop j s"] exI [of _ c]) simp
next
  case (Star cs)
  then obtain j where j: "j \<le> run cs s" "k (drop j s) c = Some res"
    by (auto dest!: backoff_Some)
  then show ?case by (intro exI [of _ "drop j s"] exI [of _ c]) simp
next
  case (Opt r)
  show ?case
  proof (cases "rmatch n r s c k")
    case None
    with Opt.prems have "k s c = Some res" by simp
    then show ?thesis by (intro exI [of _ s] exI [of _ c]) simp
  next
    case (Some a)
    with Opt.prems have "rmatch n r s c k = Some res" by simp
    from Opt.IH [OF this] show ?thesis by auto
  qed
next
  case (Seq r1 r2)
  from Seq.prems have "rmatch n r1 s c (\<lambda>s' c'. rmatch n r2 s' c' k) = Some res" by simp
  from Seq.IH(1) [OF this] obtain s1 c1 where
    a: "rmatch n r2 s1 c1 k = Some res" "length s1 + minlen r1 \<le> length s" by blast
  from Seq.IH(2) [OF a(1)] obtain s2 c2 where
    b: "k s2 c2 = Some res" "length s2 + minlen r2 \<le> length s1" by blast
  from a(2) b show ?case by (intro exI [of _ s2] exI [of _ c2]) simp
next
  case (Alt r1 r2)
  show ?case
  proof (cases "rmatch n r1 s c k")
    case None
    with Alt.prems have "rmatch n r2 s c k = Some res" by simp
    from Alt.IH(2) [OF this] show ?thesis by auto
  next
    case (Some a)
    with Alt.prems have "rmatch n r1 s c k = Some res" by simp
    from Alt.IH(1) [OF this] show ?thesis by auto
  qed
next
  case (Group g r)
  from Group.prems
  have "rmatch n r s c (\<lambda>s' c'. k s' ((g, take (length s - length s') s) # c')) = Some res"
    by simp
  from Group.IH [OF this] show ?case by auto
next
  case Bol
  then show ?case by (auto split: if_splits)
next
  case Eol
  then show ?case by (auto split: if_splits)
qed

lemma rmatch_keeps:
  "rmatch n r s c k = Some res \<Longrightarrow>
   \<exists>s' c'. k s' c' = Some res \<and> (\<forall>g. g \<notin> grps r \<longrightarrow> map_of c' g = map_of c g)"
proof (induction r arbitrary: s c k res)
  case (Lit l)
  then show ?case by (auto split: if_splits)
next
  case (Plus cs)
  then show ?case by (auto dest!: backoff_Some)
next
  case (Star cs)
  then show ?case by (auto dest!: backoff_Some)
next
  case (Opt r)
  show ?case
  proof (cases "rmatch n r s c k")
    case None
    with Opt.prems have "k s c = Some res" by simp
    then show ?thesis by blast
  next
    case (Some a)
    with Opt.prems have "rmatch n r s c k = Some res" by simp
    from Opt.IH [OF this] show ?thesis by auto
  qed
next
  case (Seq r1 r2)
  from Seq.prems have "rmatch n r1 s c (\<lambda>s' c'. rmatch n r2 s' c' k) = Some res" by simp
  from Seq.IH(1) [OF this] obtain s1 c1 where
    a: "rmatch n r2 s1 c1 k = Some res" "\<forall>g. g \<notin> grps r1 \<longrightarrow> map_of c1 g = map_of c g"
    by blast
  from Seq.IH(2) [OF a(1)] obtain s2 c2 where
    b: "k s2 c2 = Some res" "\<forall>g. g \<notin> grps r2 \<longrightarrow> map_of c2 g = map_of c1 g" by blast
  from a(2) b show ?case by (intro exI [of _ s2] exI [of _ c2]) simp
next
  case (Alt r1 r2)
  show ?case
  proof (cases "rmatch n r1 s c k")
    case None
    with Alt.prems have "rmatch n r2 s c k = Some res" by simp
    from Alt.IH(2) [OF this] show ?thesis by auto
  next
    case (Some a)
    with Alt.prems have "rmatch n r1 s c k = Some res" by simp
    from Alt.IH(1) [OF this] show ?thesis by auto
  qed
next
  case (Group g r)
  from Group.prems
  have "rmatch n r s c (\<lambda>s' c'. k s' ((g, take (length s - length s') s) # c')) = Some res"
    by simp
  from Group.IH [OF this] obtain s' c' where
    a: "k s' ((g, take (length s - length s') s) # c') = Some res"
       "\<forall>h. h \<notin> grps r \<longrightarrow> map_of c' h = map_of c h" by blast
  show ?case
    by (intro exI [of _ s'] exI [of _ "(g, take (length s - length s') s) # c'"])
       (use a in simp)
next
  case Bol
  then show ?case by (auto split: if_splits)
next
  case Eol
  then show ?case by (auto split: if_splits)
qed

lemma rmatch_sure:
  "sure g r \<Longrightarrow> rmatch n r s c k = Some res \<Longrightarrow>
   \<exists>s' c' w. k s' c' = Some res \<and> map_of c' g = Some w \<and> w \<noteq> []"
proof (induction r arbitrary: s c k res)
  case (Seq r1 r2)
  from Seq.prems(2)
  have m: "rmatch n r1 s c (\<lambda>s' c'. rmatch n r2 s' c' k) = Some res" by simp
  show ?case
  proof (cases "sure g r2")
    case True
    from rmatch_shrinks [OF m] obtain s1 c1 where "rmatch n r2 s1 c1 k = Some res" by blast
    from Seq.IH(2) [OF True this] show ?thesis .
  next
    case False
    with Seq.prems(1) have s1: "sure g r1" and g: "g \<notin> grps r2" by auto
    from Seq.IH(1) [OF s1 m] obtain s1 c1 w where
      a: "rmatch n r2 s1 c1 k = Some res" "map_of c1 g = Some w" "w \<noteq> []" by blast
    from rmatch_keeps [OF a(1)] obtain s2 c2 where
      b: "k s2 c2 = Some res" "\<forall>h. h \<notin> grps r2 \<longrightarrow> map_of c2 h = map_of c1 h" by blast
    from b(2) g a(2) have "map_of c2 g = Some w" by simp
    with b(1) a(3) show ?thesis by blast
  qed
next
  case (Alt r1 r2)
  from Alt.prems(1) have s: "sure g r1" "sure g r2" by auto
  show ?case
  proof (cases "rmatch n r1 s c k")
    case None
    with Alt.prems(2) have "rmatch n r2 s c k = Some res" by simp
    from Alt.IH(2) [OF s(2) this] show ?thesis .
  next
    case (Some a)
    with Alt.prems(2) have "rmatch n r1 s c k = Some res" by simp
    from Alt.IH(1) [OF s(1) this] show ?thesis .
  qed
next
  case (Group h r)
  from Group.prems(2)
  have m: "rmatch n r s c (\<lambda>s' c'. k s' ((h, take (length s - length s') s) # c')) = Some res"
    by simp
  show ?case
  proof (cases "h = g")
    case True
    with Group.prems(1) have pos: "0 < minlen r" by simp
    from rmatch_shrinks [OF m] obtain s' c' where
      a: "k s' ((h, take (length s - length s') s) # c') = Some res"
         "length s' + minlen r \<le> length s" by blast
    from a(2) pos have "take (length s - length s') s \<noteq> []" by auto
    with a(1) True show ?thesis
      by (intro exI [of _ s'] exI [of _ "(h, take (length s - length s') s) # c'"]
            exI [of _ "take (length s - length s') s"]) simp
  next
    case False
    with Group.prems(1) have "sure g r" by simp
    from Group.IH [OF this m] obtain s' c' w where
      a: "k s' ((h, take (length s - length s') s) # c') = Some res"
         "map_of c' g = Some w" "w \<noteq> []" by blast
    with False show ?thesis
      by (intro exI [of _ s'] exI [of _ "(h, take (length s - length s') s) # c'"]
            exI [of _ w]) simp
  qed
qed simp_all

lemma scan_sure:
  "sure g r \<Longrightarrow> scan n r s = Some m \<Longrightarrow> \<exists>w. group m g = Some w \<and> w \<noteq> []"
proof (induction s)
  case Nil
  show ?case
  proof (cases "rmatch n r [] [] (\<lambda>s' c. Some (s', c))")
    case None
    with Nil.prems(2) show ?thesis by simp
  next
    case (Some a)
    obtain s' c where a: "a = (s', c)" by (cases a)
    from rmatch_sure [OF Nil.prems(1) Some] a obtain w where "map_of c g = Some w" "w \<noteq> []"
      by auto
    with Nil.prems(2) Some a show ?thesis by (auto simp: group_def)
  qed
next
  case (Cons x s)
  show ?case
  proof (cases "rmatch n r (x # s) [] (\<lambda>s' c. Some (s', c))")
    case None
    with Cons.prems(2) have "scan n r s = Some m" by simp
    from Cons.IH [OF Cons.prems(1) this] show ?thesis .
  next
    case (Some a)
    obtain s' c where a: "a = (s', c)" by (cases a)
    from rmatch_sure [OF Cons.prems(1) Some] a obtain w where "map_of c g = Some w" "w \<noteq> []"
      by auto
    with Cons.prems(2) Some a show ?thesis by (auto simp: group_def)
  qed
qed

lemma re_search_sure:
  "sure g r \<Longrightarrow> re_search r s = Some m \<Longrightarrow> \<exists>w. group m g = Some w \<and> w \<noteq> []"
  unfolding re_search_def by (rule scan_sure)

lemma first_search_sure:
  "list_all (sure g) rs \<Longrightarrow> first_search rs s = Some m \<Longrightarrow>
   \<exists>w. group m g = Some w \<and> w \<noteq> []"
proof (induction rs)
  case Nil
  then show ?case by simp
next
  case (Cons r rs)
  show ?case
  proof (cases "re_search r s")
    case None
    with Cons show ?thesis by simp
  next
    case (Some a)
    with Cons.prems have "re_search r s = Some m" "sure g r" by simp_all
    then show ?thesis by (intro re_search_sure)
  qed
qed

lemma sure_id_pattern: "sure 1 id_pattern"
  by (simp add: id_pattern_def)

lemma sure_loc_patterns: "list_all (sure 1) loc_patterns"
  by (simp add: loc_patterns_def)

lemma title_from_length: "length (title_from b s) = length s"
  by (induction s arbitrary: b) auto

lemma str_title_Nil: "str_title s = [] \<longleftrightarrow> s = []"
  using title_from_length [of False s] unfolding str_title_def
  by (metis length_0_conv)

subsection \<open>The pattern of the inference\<close>
















text \<open>A text with \<^verbatim>\<open>sold\<close> is none of the help and status words.\<close>

lemma sold_is_no_literal:
  assumes "contains lower ''sold''"
  shows "lower \<notin> set help_texts" and "lower \<notin> set status_texts"
proof -
  have "\<forall>t \<in> set (help_texts @ status_texts). \<not> contains t ''sold''" by code_simp
  with assms show "lower \<notin> set help_texts" and "lower \<notin> set status_texts" by auto
qed

section \<open>The scenarios\<close>

text \<open>
  C3. The spec has \<^verbatim>\<open>"add calf born today red tag"\<close> parsed as AddCattle with
  type calf, today's birth date, a tag starting with \<^verbatim>\<open>RED-\<close> and the notes
  \<^verbatim>\<open>red tag\<close>. The text contains \<^verbatim>\<open>born\<close>, a synonym of the event type birth, and
  the check for health events comes before the check for additions: the parser returns
  a Health command of event type birth, with no tag and the whole text as details.
\<close>

theorem C3_add_calf_born_is_health:
  "parse today ''add calf born today red tag'' =
     Inr \<lparr>command_type = HEALTH,
          params = [(''tag'', PNone), (''event_type'', PStr ''birth''),
                    (''details'', PStr ''add calf born today red tag''),
                    (''date'', PDate today)],
          confidence = 0.85, raw_text = ''add calf born today red tag''\<rparr>"
  by code_simp

text \<open>
  C4. The spec has every slot of an intent present in the dictionary, and the four
  keys tag, event type, details and date in every Health command. The Health command
  that \<^verbatim>\<open>_infer_command\<close> builds for \<^verbatim>\<open>"42 sick"\<close> has three keys: there is no date.
\<close>

theorem C4_inferred_health_has_no_date:
  "parse today ''42 sick'' =
     Inr \<lparr>command_type = HEALTH,
          params = [(''tag'', PStr ''42''), (''event_type'', PStr ''note''),
                    (''details'', PStr ''sick'')],
          confidence = 0.7, raw_text = ''42 sick''\<rparr>
   \<and> map_of [(''tag'', PStr ''42''), (''event_type'', PStr ''note''),
              (''details'', PStr ''sick'')] ''date'' = None"
  by code_simp

text \<open>
  C5. The spec has \<^verbatim>\<open>"how many calves this month"\<close> parsed as a count query
  filtered by type calf since the first day of the month. The query parser tests the
  keys of the cattle type table, and \<^verbatim>\<open>calf\<close> does not occur in \<^verbatim>\<open>calves\<close>: the
  filter has the date and no type.
\<close>

theorem C5_how_many_calves_has_no_type:
  "parse today ''how many calves this month'' =
     Inr \<lparr>command_type = QUERY,
          params = [(''query_type'', PStr ''count''),
                    (''filter'', PDict [(''since'', PDate (today\<lparr>day := 1\<rparr>))])],
          confidence = 0.85, raw_text = ''how many calves this month''\<rparr>"
  by code_simp

text \<open>
  C6. \<^verbatim>\<open>"sold 5 steers $1.85/lb avg 1100"\<close> is a Sale of 5 head at 1.85 per pound
  and 1100 pounds on average, of type steer, and the confirmation reports the amount
  5 times 1.85 times 1100, which is 10175, written \<^verbatim>\<open>$10,175\<close>.
\<close>

theorem C6_sold_steers:
  "parse today ''sold 5 steers $1.85/lb avg 1100'' =
     Inr \<lparr>command_type = SALE,
          params = [(''head_count'', PInt 5), (''price_per_lb'', PFloat 1.85),
                    (''avg_weight'', PFloat 1100.0), (''cattle_type'', PStr ''steer''),
                    (''buyer'', PNone), (''date'', PDate today)],
          confidence = 0.9, raw_text = ''sold 5 steers $1.85/lb avg 1100''\<rparr>
   \<and> generate_response str_of
         \<lparr>command_type = SALE,
          params = [(''head_count'', PInt 5), (''price_per_lb'', PFloat 1.85),
                    (''avg_weight'', PFloat 1100.0), (''cattle_type'', PStr ''steer''),
                    (''buyer'', PNone), (''date'', PDate today)],
          confidence = 0.9, raw_text = ''sold 5 steers $1.85/lb avg 1100''\<rparr> result =
       Inr (check_mark @ '' Recorded sale: '' @ str_of (PInt 5) @ '' ''
            @ str_of (PStr ''steer'') @ ''(s) - $10,175'')
   \<and> format_comma_0f (5 * 1.85 * 1100) = ''10,175''"
  by code_simp

text \<open>
  C2, as stated, fails: a text with \<^verbatim>\<open>sold\<close> and the event word \<^verbatim>\<open>vet\<close> that also
  has a query word is a query, since the check for queries comes first.
\<close>

theorem C2_counterexample:
  "contains ''show sick calves sold after vet visit'' ''sold''
   \<and> contains ''show sick calves sold after vet visit'' ''vet''
   \<and> parse example_day ''show sick calves sold after vet visit'' =
       Inr \<lparr>command_type = QUERY,
            params = [(''query_type'', PStr ''list''), (''filter'', PDict [])],
            confidence = 0.85, raw_text = ''show sick calves sold after vet visit''\<rparr>"
  by code_simp


section \<open>Invariants of the parser\<close>

text \<open>
  C1. For every input, the command that \<open>parse\<close> returns has confidence 0 exactly when
  its intent is Unknown: an Unknown command has confidence 0, and a command of any other
  intent has a confidence strictly greater than 0.
\<close>

theorem C1_confidence_zero_iff_unknown:
  assumes "parse today input = Inr cmd"
  shows "(confidence cmd = 0 \<longleftrightarrow> command_type cmd = UNKNOWN)
         \<and> (command_type cmd = UNKNOWN \<longrightarrow> confidence cmd = 0)
         \<and> (command_type cmd \<noteq> UNKNOWN \<longrightarrow> 0 < confidence cmd)"
  using assms unfolding parse_def Let_def
  by (auto split: if_splits dest!: parse_query_Inr parse_sale_Inr parse_event_Inr
        parse_move_Inr parse_add_Inr infer_command_Inr)

theorem C1_witness:
  "parse example_day ''xyz nonsense'' =
     Inr \<lparr>command_type = UNKNOWN, params = [(''raw'', PStr ''xyz nonsense'')],
          confidence = 0, raw_text = ''xyz nonsense''\<rparr>
   \<and> confidence \<lparr>command_type = UNKNOWN, params = [(''raw'', PStr ''xyz nonsense'')],
                    confidence = 0, raw_text = ''xyz nonsense''\<rparr> = 0
   \<and> parse example_day ''cow 42 moved'' =
       Inr \<lparr>command_type = MOVE, params = [(''tag'', PStr ''42''), (''location'', PNone)],
            confidence = 0.6, raw_text = ''cow 42 moved''\<rparr>
   \<and> command_type \<lparr>command_type = MOVE,
                      params = [(''tag'', PStr ''42''), (''location'', PNone)],
                      confidence = 0.6, raw_text = ''cow 42 moved''\<rparr> \<noteq> UNKNOWN
   \<and> 0 < confidence \<lparr>command_type = MOVE,
                        params = [(''tag'', PStr ''42''), (''location'', PNone)],
                        confidence = 0.6, raw_text = ''cow 42 moved''\<rparr>"
proof -
  let ?u = "\<lparr>command_type = UNKNOWN, params = [(''raw'', PStr ''xyz nonsense'')],
            confidence = 0, raw_text = ''xyz nonsense''\<rparr>"
  let ?m = "\<lparr>command_type = MOVE, params = [(''tag'', PStr ''42''), (''location'', PNone)],
            confidence = 0.6, raw_text = ''cow 42 moved''\<rparr>"
  have u: "parse example_day ''xyz nonsense'' = Inr ?u" by code_simp
  have m: "parse example_day ''cow 42 moved'' = Inr ?m" by code_simp
  have tu: "command_type ?u = UNKNOWN" by simp
  have tm: "command_type ?m \<noteq> UNKNOWN" by simp
  from C1_confidence_zero_iff_unknown [OF u] tu have cu: "confidence ?u = 0" by blast
  from C1_confidence_zero_iff_unknown [OF m] tm have cm: "0 < confidence ?m" by blast
  show ?thesis by (intro conjI u m cu tm cm)
qed

text \<open>
  C9. A query that has none of the words \<^verbatim>\<open>where\<close>, \<^verbatim>\<open>how many\<close>,
  \<^verbatim>\<open>count\<close>, \<^verbatim>\<open>total\<close>, \<^verbatim>\<open>list\<close>, \<^verbatim>\<open>show\<close>, \<^verbatim>\<open>all\<close> is a
  count query with an empty filter.
\<close>

theorem C9_bare_query:
  assumes "parse today input = Inr cmd" and "command_type cmd = QUERY"
    and "\<not> any_in [''where'', ''how many'', ''count'', ''total'', ''list'', ''show'', ''all'']
             (str_lower (str_strip input))"
  shows "params cmd = [(''query_type'', PStr ''count''), (''filter'', PDict [])]"
proof -
  let ?text = "str_strip input"
  let ?lower = "str_lower ?text"
  have q: "parse_query today ?text ?lower = Inr cmd"
    using assms(1,2) unfolding parse_def Let_def
    by (auto split: if_splits dest!: parse_sale_Inr parse_event_Inr
          parse_move_Inr parse_add_Inr infer_command_Inr)
  from assms(3) have n: "\<not> contains ?lower ''where''"
    "\<not> any_in [''how many'', ''count'', ''total''] ?lower"
    "\<not> contains ?lower ''list''" "\<not> contains ?lower ''show''" "\<not> contains ?lower ''all''"
    by (simp_all add: any_in_def)
  show ?thesis using q unfolding parse_query_def Let_def by (simp add: n) auto
qed

theorem C9_witness:
  "parse example_day ''status report'' =
     Inr \<lparr>command_type = QUERY,
          params = [(''query_type'', PStr ''count''), (''filter'', PDict [])],
          confidence = 0.85, raw_text = ''status report''\<rparr>
   \<and> \<not> any_in [''where'', ''how many'', ''count'', ''total'', ''list'', ''show'', ''all'']
         (str_lower (str_strip ''status report''))
   \<and> params \<lparr>command_type = QUERY,
          params = [(''query_type'', PStr ''count''), (''filter'', PDict [])],
          confidence = 0.85, raw_text = ''status report''\<rparr> =
       [(''query_type'', PStr ''count''), (''filter'', PDict [])]"
proof -
  have q: "parse example_day ''status report'' =
     Inr \<lparr>command_type = QUERY,
          params = [(''query_type'', PStr ''count''), (''filter'', PDict [])],
          confidence = 0.85, raw_text = ''status report''\<rparr>"
    by code_simp
  have n: "\<not> any_in [''where'', ''how many'', ''count'', ''total'', ''list'', ''show'', ''all'']
         (str_lower (str_strip ''status report''))"
    by code_simp
  show ?thesis
    by (intro conjI q n C9_bare_query [OF q _ n]) simp
qed



text \<open>
  C7. For every input classified as Move, the confidence is 0.9 when both the tag and the
  location are resolved, and 0.6 when one of them or both are absent.
\<close>

theorem C7_move_confidence:
  assumes "parse today input = Inr cmd" and "command_type cmd = MOVE"
  shows "confidence cmd =
           (if map_of (params cmd) ''tag'' = Some PNone
               \<or> map_of (params cmd) ''location'' = Some PNone
            then 0.6 else 0.9)"
proof -
  let ?text = "str_strip input"
  let ?lower = "str_lower ?text"
  have mv: "parse_move ?text ?lower = Inr cmd"
    using assms unfolding parse_def Let_def
    by (auto split: if_splits dest!: parse_query_Inr parse_sale_Inr parse_event_Inr
          parse_add_Inr infer_command_Inr)
  define tag where "tag = (case re_search id_pattern ?lower of
                             Some tag_match \<Rightarrow> group_val tag_match 1 | None \<Rightarrow> PNone)"
  have tag: "truthy tag \<longleftrightarrow> tag \<noteq> PNone"
  proof (cases "re_search id_pattern ?lower")
    case None
    then show ?thesis by (simp add: tag_def)
  next
    case (Some m)
    from re_search_sure [OF sure_id_pattern Some] obtain w where
      "group m 1 = Some w" "w \<noteq> []" by blast
    with Some show ?thesis by (simp add: tag_def group_val_def)
  qed
  from mv obtain location where
    loc: "(case first_search loc_patterns ?lower of
             Some m \<Rightarrow> attempt (group_str m 1) (\<lambda>g. Inr (PStr (str_title g)))
           | None \<Rightarrow> Inr PNone) = Inr location"
    and cmd: "cmd = \<lparr>command_type = MOVE, params = [(''tag'', tag), (''location'', location)],
                     confidence = (if truthy tag \<and> truthy location then 0.9 else 0.6),
                     raw_text = ?text\<rparr>"
    unfolding parse_move_def Let_def attempt_Inr tag_def by auto
  have location: "truthy location \<longleftrightarrow> location \<noteq> PNone"
  proof (cases "first_search loc_patterns ?lower")
    case None
    with loc show ?thesis by auto
  next
    case (Some m)
    from first_search_sure [OF sure_loc_patterns Some] obtain w where
      "group m 1 = Some w" "w \<noteq> []" by blast
    with Some loc show ?thesis by (auto simp: group_str_def attempt_def str_title_Nil)
  qed
  show ?thesis unfolding cmd using tag location by auto
qed

theorem C7_witness:
  "parse example_day ''cow 42 moved to north pasture'' =
     Inr \<lparr>command_type = MOVE,
          params = [(''tag'', PStr ''42''), (''location'', PStr ''North Pasture'')],
          confidence = 0.9, raw_text = ''cow 42 moved to north pasture''\<rparr>
   \<and> confidence \<lparr>command_type = MOVE,
          params = [(''tag'', PStr ''42''), (''location'', PStr ''North Pasture'')],
          confidence = 0.9, raw_text = ''cow 42 moved to north pasture''\<rparr> =
       (if map_of (params \<lparr>command_type = MOVE,
               params = [(''tag'', PStr ''42''), (''location'', PStr ''North Pasture'')],
               confidence = 0.9, raw_text = ''cow 42 moved to north pasture''\<rparr>) ''tag'' =
             Some PNone
           \<or> map_of (params \<lparr>command_type = MOVE,
               params = [(''tag'', PStr ''42''), (''location'', PStr ''North Pasture'')],
               confidence = 0.9, raw_text = ''cow 42 moved to north pasture''\<rparr>)
               ''location'' = Some PNone
        then 0.6 else 0.9)
   \<and> parse example_day ''cow 42 moved'' =
       Inr \<lparr>command_type = MOVE, params = [(''tag'', PStr ''42''), (''location'', PNone)],
            confidence = 0.6, raw_text = ''cow 42 moved''\<rparr>
   \<and> confidence \<lparr>command_type = MOVE,
          params = [(''tag'', PStr ''42''), (''location'', PNone)],
          confidence = 0.6, raw_text = ''cow 42 moved''\<rparr> =
       (if map_of (params \<lparr>command_type = MOVE,
               params = [(''tag'', PStr ''42''), (''location'', PNone)],
               confidence = 0.6, raw_text = ''cow 42 moved''\<rparr>) ''tag'' = Some PNone
           \<or> map_of (params \<lparr>command_type = MOVE,
               params = [(''tag'', PStr ''42''), (''location'', PNone)],
               confidence = 0.6, raw_text = ''cow 42 moved''\<rparr>) ''location'' = Some PNone
        then 0.6 else 0.9)"
proof -
  have a: "parse example_day ''cow 42 moved to north pasture'' =
     Inr \<lparr>command_type = MOVE,
          params = [(''tag'', PStr ''42''), (''location'', PStr ''North Pasture'')],
          confidence = 0.9, raw_text = ''cow 42 moved to north pasture''\<rparr>"
    by code_simp
  have b: "parse example_day ''cow 42 moved'' =
       Inr \<lparr>command_type = MOVE, params = [(''tag'', PStr ''42''), (''location'', PNone)],
            confidence = 0.6, raw_text = ''cow 42 moved''\<rparr>"
    by code_simp
  show ?thesis
    by (intro conjI a b C7_move_confidence [OF a] C7_move_confidence [OF b]) simp_all
qed

text \<open>
  C2, amended. The check for queries precedes the check for sales, and the check for sales
  precedes the check for health events. So whenever \<open>parse\<close> returns a command for a text
  that has \<^verbatim>\<open>sold\<close> after stripping and lower-casing, the command is a Query if the text
  has a query word and a Sale otherwise, whichever event words the text has; it is never a
  Health command.
\<close>

theorem C2_sold_is_sale_unless_query:
  assumes "parse today input = Inr cmd"
    and "contains (str_lower (str_strip input)) ''sold''"
  shows "command_type cmd =
           (if any_in QUERY_WORDS (str_lower (str_strip input)) then QUERY else SALE)"
proof -
  let ?text = "str_strip input"
  let ?lower = "str_lower ?text"
  note n = sold_is_no_literal [OF assms(2)]
  show ?thesis
  proof (cases "any_in QUERY_WORDS ?lower")
    case True
    with assms(1) n have "parse_query today ?text ?lower = Inr cmd"
      unfolding parse_def Let_def by simp
    with True show ?thesis by (simp add: parse_query_Inr)
  next
    case False
    from assms(2) have "any_in sale_words ?lower" by (simp add: any_in_def sale_words_def)
    with assms(1) n False have "parse_sale today ?text ?lower = Inr cmd"
      unfolding parse_def Let_def by simp
    with False show ?thesis by (simp add: parse_sale_Inr)
  qed
qed

theorem C2_witness:
  "parse example_day ''sold 3 calves after vet visit'' =
     Inr \<lparr>command_type = SALE,
          params = [(''head_count'', PInt 3), (''price_per_lb'', PNone),
                    (''avg_weight'', PNone), (''cattle_type'', PStr ''steer''),
                    (''buyer'', PNone), (''date'', PDate example_day)],
          confidence = 0.9, raw_text = ''sold 3 calves after vet visit''\<rparr>
   \<and> contains (str_lower (str_strip ''sold 3 calves after vet visit'')) ''sold''
   \<and> has_event_word (str_lower (str_strip ''sold 3 calves after vet visit''))
   \<and> \<not> any_in QUERY_WORDS (str_lower (str_strip ''sold 3 calves after vet visit''))
   \<and> command_type \<lparr>command_type = SALE,
          params = [(''head_count'', PInt 3), (''price_per_lb'', PNone),
                    (''avg_weight'', PNone), (''cattle_type'', PStr ''steer''),
                    (''buyer'', PNone), (''date'', PDate example_day)],
          confidence = 0.9, raw_text = ''sold 3 calves after vet visit''\<rparr> = SALE
   \<and> parse example_day ''how many sold after the vet visit'' =
       Inr \<lparr>command_type = QUERY,
            params = [(''query_type'', PStr ''count''), (''filter'', PDict [])],
            confidence = 0.85, raw_text = ''how many sold after the vet visit''\<rparr>
   \<and> contains (str_lower (str_strip ''how many sold after the vet visit'')) ''sold''
   \<and> has_event_word (str_lower (str_strip ''how many sold after the vet visit''))
   \<and> any_in QUERY_WORDS (str_lower (str_strip ''how many sold after the vet visit''))
   \<and> command_type \<lparr>command_type = QUERY,
            params = [(''query_type'', PStr ''count''), (''filter'', PDict [])],
            confidence = 0.85, raw_text = ''how many sold after the vet visit''\<rparr> = QUERY"
proof -
  let ?sale = "''sold 3 calves after vet visit''"
  let ?query = "''how many sold after the vet visit''"
  have p: "parse example_day ?sale =
     Inr \<lparr>command_type = SALE,
          params = [(''head_count'', PInt 3), (''price_per_lb'', PNone),
                    (''avg_weight'', PNone), (''cattle_type'', PStr ''steer''),
                    (''buyer'', PNone), (''date'', PDate example_day)],
          confidence = 0.9, raw_text = ?sale\<rparr>"
    by code_simp
  have c: "contains (str_lower (str_strip ?sale)) ''sold''" by code_simp
  have e: "has_event_word (str_lower (str_strip ?sale))" by code_simp
  have q: "\<not> any_in QUERY_WORDS (str_lower (str_strip ?sale))" by code_simp
  have p': "parse example_day ?query =
       Inr \<lparr>command_type = QUERY,
            params = [(''query_type'', PStr ''count''), (''filter'', PDict [])],
            confidence = 0.85, raw_text = ?query\<rparr>"
    by code_simp
  have c': "contains (str_lower (str_strip ?query)) ''sold''" by code_simp
  have e': "has_event_word (str_lower (str_strip ?query))" by code_simp
  have q': "any_in QUERY_WORDS (str_lower (str_strip ?query))" by code_simp
  from C2_sold_is_sale_unless_query [OF p c] q
  have t: "command_type \<lparr>command_type = SALE,
          params = [(''head_count'', PInt 3), (''price_per_lb'', PNone),
                    (''avg_weight'', PNone), (''cattle_type'', PStr ''steer''),
                    (''buyer'', PNone), (''date'', PDate example_day)],
          confidence = 0.9, raw_text = ?sale\<rparr> = SALE"
    by (simp only: if_False)
  from C2_sold_is_sale_unless_query [OF p' c'] q'
  have t': "command_type \<lparr>command_type = QUERY,
            params = [(''query_type'', PStr ''count''), (''filter'', PDict [])],
            confidence = 0.85, raw_text = ?query\<rparr> = QUERY"
    by (simp only: if_True)
  show ?thesis by (intro conjI p c e q t p' c' e' q' t')
qed



end
